theory Spec2Isabelle
  imports Complex_Main "HOL-Library.Word"
begin

section \<open>Data model of \<open>google/genai/types.py\<close>\<close>

text \<open>
  Every class of \<open>types.py\<close> derives from \<open>_common.BaseModel\<close>, a pydantic model: each
  field is declared \<open>Optional[...]\<close> with default \<open>None\<close>.  A class is a record whose
  fields are options, a \<open>Literal[...]\<close> alias is an enumeration, \<open>bytes\<close> is a list of
  octets, \<open>dict[str, Any]\<close> is an association list of JSON values, and
  \<open>datetime.datetime\<close> is a number of seconds since the epoch.
\<close>

datatype Outcome =
  OUTCOME_UNSPECIFIED | OUTCOME_OK | OUTCOME_FAILED | OUTCOME_DEADLINE_EXCEEDED

datatype Language = LANGUAGE_UNSPECIFIED | PYTHON

datatype MaskReferenceMode =
  MASK_MODE_DEFAULT | MASK_MODE_USER_PROVIDED | MASK_MODE_BACKGROUND
  | MASK_MODE_FOREGROUND | MASK_MODE_SEMANTIC

datatype ControlReferenceType =
  CONTROL_TYPE_DEFAULT | CONTROL_TYPE_CANNY | CONTROL_TYPE_SCRIBBLE | CONTROL_TYPE_FACE_MESH

datatype SubjectReferenceType =
  SUBJECT_TYPE_DEFAULT | SUBJECT_TYPE_PERSON | SUBJECT_TYPE_ANIMAL | SUBJECT_TYPE_PRODUCT

datatype json =
  JNull | JBool bool | JInt int | JStr string | JList "json list" | JDict "(string \<times> json) list"

type_synonym bytes = "8 word list"

type_synonym datetime = int

record VideoMetadata =
  end_offset :: "string option"
  start_offset :: "string option"

record CodeExecutionResult =
  outcome :: "Outcome option"
  "output" :: "string option"

record ExecutableCode =
  code :: "string option"
  language :: "Language option"

record FileData =
  file_uri :: "string option"
  mime_type :: "string option"

record FunctionCall =
  args :: "(string \<times> json) list option"
  name :: "string option"

record FunctionResponse =
  name :: "string option"
  response :: "(string \<times> json) list option"

record Blob =
  data :: "bytes option"
  mime_type :: "string option"

text \<open>
  \<open>class Part\<close>: eight optional fields in this order, no validator and no \<open>__init__\<close> of
  its own.
\<close>

record Part =
  video_metadata :: "VideoMetadata option"
  code_execution_result :: "CodeExecutionResult option"
  executable_code :: "ExecutableCode option"
  file_data :: "FileData option"
  function_call :: "FunctionCall option"
  function_response :: "FunctionResponse option"
  inline_data :: "Blob option"
  "text" :: "string option"

text \<open>
  Exceptions as values.  \<open>ValueError\<close> is what \<open>GenerateContentResponse.text\<close> raises; its
  message is determined by the offending field name and the part, which the constructor
  carries.  \<open>InvalidArgument\<close> and \<open>UnsupportedOnBackend\<close> are the error kinds of the
  specification's section 7, each with its message.
\<close>

datatype error =
  ValueError string Part
  | InvalidArgument string
  | UnsupportedOnBackend string

subsection \<open>Constructing a Part\<close>

text \<open>
  \<open>Part(video_metadata=..., ..., text=...)\<close>.  The class declares fields only: there is no
  validator anywhere in \<open>types.py\<close>, so the inherited pydantic constructor checks each
  keyword argument against its declared type (which the HOL types already guarantee) and
  stores it.  The result is a sum so that raising would be a value \<open>Inl\<close>.
\<close>

definition Part_init ::
  "VideoMetadata option \<Rightarrow> CodeExecutionResult option \<Rightarrow> ExecutableCode option \<Rightarrow>
   FileData option \<Rightarrow> FunctionCall option \<Rightarrow> FunctionResponse option \<Rightarrow>
   Blob option \<Rightarrow> string option \<Rightarrow> error + Part" where
  "Part_init vm cer ec fd fc fr idt t =
     Inr \<lparr>video_metadata = vm, code_execution_result = cer, executable_code = ec,
          file_data = fd, function_call = fc, function_response = fr,
          inline_data = idt, text = t\<rparr>"

text \<open>The class methods \<open>from_uri\<close>, \<open>from_text\<close>, \<open>from_bytes\<close>, ...: each builds the payload
  and calls \<open>cls(<one field>=payload)\<close>.\<close>

definition from_uri :: "string \<Rightarrow> string \<Rightarrow> error + Part" where
  "from_uri uri mt =
     (let fd = \<lparr>file_uri = Some uri, mime_type = Some mt\<rparr>
      in Part_init None None None (Some fd) None None None None)"

definition from_text :: "string \<Rightarrow> error + Part" where
  "from_text t = Part_init None None None None None None None (Some t)"

definition from_bytes :: "bytes \<Rightarrow> string \<Rightarrow> error + Part" where
  "from_bytes bs mt =
     (let idt = \<lparr>data = Some bs, mime_type = Some mt\<rparr>
      in Part_init None None None None None None (Some idt) None)"

definition from_function_call :: "string \<Rightarrow> (string \<times> json) list \<Rightarrow> error + Part" where
  "from_function_call n a =
     (let fc = \<lparr>args = Some a, name = Some n\<rparr>
      in Part_init None None None None (Some fc) None None None)"

definition from_function_response :: "string \<Rightarrow> (string \<times> json) list \<Rightarrow> error + Part" where
  "from_function_response n r =
     (let fr = \<lparr>name = Some n, response = Some r\<rparr>
      in Part_init None None None None None (Some fr) None None)"

definition from_video_metadata :: "string \<Rightarrow> string \<Rightarrow> error + Part" where
  "from_video_metadata eo so =
     (let vm = \<lparr>end_offset = Some eo, start_offset = Some so\<rparr>
      in Part_init (Some vm) None None None None None None None)"

definition from_executable_code :: "string \<Rightarrow> Language \<Rightarrow> error + Part" where
  "from_executable_code c l =
     (let ec = \<lparr>code = Some c, language = Some l\<rparr>
      in Part_init None None (Some ec) None None None None None)"

definition from_code_execution_result :: "Outcome \<Rightarrow> string \<Rightarrow> error + Part" where
  "from_code_execution_result oc ou =
     (let cer = \<lparr>outcome = Some oc, output = Some ou\<rparr>
      in Part_init None (Some cer) None None None None None None)"

subsection \<open>\<open>part.dict(exclude=...)\<close>\<close>

text \<open>
  \<open>part.dict()\<close> lists the fields in declaration order, each with its value (\<open>None\<close> when
  the field is unset); \<open>exclude\<close> drops the named fields.
\<close>

datatype field_value =
  V_video_metadata VideoMetadata
  | V_code_execution_result CodeExecutionResult
  | V_executable_code ExecutableCode
  | V_file_data FileData
  | V_function_call FunctionCall
  | V_function_response FunctionResponse
  | V_inline_data Blob
  | V_text string

definition Part_dict :: "Part \<Rightarrow> string list \<Rightarrow> (string \<times> field_value option) list" where
  "Part_dict part excl =
     filter (\<lambda>(field_name, field_value). field_name \<notin> set excl)
       [(''video_metadata'', map_option V_video_metadata (video_metadata part)),
        (''code_execution_result'', map_option V_code_execution_result (code_execution_result part)),
        (''executable_code'', map_option V_executable_code (executable_code part)),
        (''file_data'', map_option V_file_data (file_data part)),
        (''function_call'', map_option V_function_call (function_call part)),
        (''function_response'', map_option V_function_response (function_response part)),
        (''inline_data'', map_option V_inline_data (inline_data part)),
        (''text'', map_option V_text (text part))]"

text \<open>The names of the populated (not \<open>None\<close>) fields of a part, in declaration order.\<close>

definition populated_fields :: "Part \<Rightarrow> string list" where
  "populated_fields part =
     map fst (filter (\<lambda>(field_name, field_value). field_value \<noteq> None) (Part_dict part []))"

definition only_text :: "Part \<Rightarrow> bool" where
  "only_text part = (populated_fields part = [''text''])"

definition has_non_text :: "Part \<Rightarrow> bool" where
  "has_non_text part = (filter (\<lambda>field_name. field_name \<noteq> ''text'') (populated_fields part) \<noteq> [])"

subsection \<open>Content, Candidate, GenerateContentResponse\<close>

record Content =
  parts :: "Part list option"
  role :: "string option"

text \<open>
  \<open>Candidate\<close> and \<open>GenerateContentResponse\<close> carry further output-only metadata
  (citations, grounding, log probabilities, safety ratings, prompt feedback, the parsed
  value); the \<open>text\<close> property reads \<open>candidates\<close>, \<open>content\<close> and \<open>parts\<close> only.
\<close>

record Candidate =
  content :: "Content option"
  finish_message :: "string option"
  token_count :: "int option"
  finish_reason :: "string option"
  index :: "int option"

record GenerateContentResponseUsageMetadata =
  cached_content_token_count :: "int option"
  candidates_token_count :: "int option"
  prompt_token_count :: "int option"
  total_token_count :: "int option"

record GenerateContentResponse =
  candidates :: "Candidate list option"
  model_version :: "string option"
  usage_metadata :: "GenerateContentResponseUsageMetadata option"

text \<open>\<open>logging.warning\<close> calls are collected in a log; the record carries the number of
  candidates the message reports.\<close>

datatype log_record = Warning_candidates nat

text \<open>
  The inner loop of \<open>GenerateContentResponse.text\<close>:
  \<^verbatim>\<open>
  for field_name, field_value in part.dict(exclude={"text"}).items():
    if field_value is not None:
      raise ValueError(...)
  \<close>
\<close>

fun check_fields :: "Part \<Rightarrow> (string \<times> field_value option) list \<Rightarrow> error + unit" where
  "check_fields part [] = Inr ()"
| "check_fields part ((field_name, field_value) # items) =
     (if field_value \<noteq> None then Inl (ValueError field_name part)
      else check_fields part items)"

text \<open>
  The outer loop over the parts, with the accumulators \<open>text\<close> and
  \<open>any_text_part_text\<close>:
  \<^verbatim>\<open>
  for part in self.candidates[0].content.parts:
    <inner loop>
    if isinstance(part.text, str):
      any_text_part_text = True
      text += part.text
  \<close>
\<close>

fun text_loop :: "Part list \<Rightarrow> string \<Rightarrow> bool \<Rightarrow> error + (string \<times> bool)" where
  "text_loop [] acc any_text_part_text = Inr (acc, any_text_part_text)"
| "text_loop (part # rest) acc any_text_part_text =
     (case check_fields part (Part_dict part [''text'']) of
        Inl e \<Rightarrow> Inl e
      | Inr _ \<Rightarrow>
          (case Part.text part of
             Some s \<Rightarrow> text_loop rest (acc @ s) True
           | None \<Rightarrow> text_loop rest acc any_text_part_text))"

text \<open>
  The property \<open>GenerateContentResponse.text\<close>.  \<open>not x\<close> holds of \<open>None\<close> and of the empty
  list; a \<open>Content\<close> object is always truthy.  The result pairs the log with the returned
  value or the raised error.
\<close>

definition GenerateContentResponse_text ::
  "GenerateContentResponse \<Rightarrow> log_record list \<times> (error + string option)" where
  "GenerateContentResponse_text self =
     (case candidates self of
        None \<Rightarrow> ([], Inr None)
      | Some [] \<Rightarrow> ([], Inr None)
      | Some (c # cs) \<Rightarrow>
          (case content c of
             None \<Rightarrow> ([], Inr None)
           | Some ct \<Rightarrow>
               (case parts ct of
                  None \<Rightarrow> ([], Inr None)
                | Some [] \<Rightarrow> ([], Inr None)
                | Some (p # ps) \<Rightarrow>
                    (if length (c # cs) > 1 then [Warning_candidates (length (c # cs))] else [],
                     case text_loop (p # ps) [] False of
                       Inl e \<Rightarrow> Inl e
                     | Inr (t, any_text_part_text) \<Rightarrow>
                         Inr (if any_text_part_text then Some t else None)))))"

subsection \<open>Job states and the tuning job\<close>

text \<open>
  The alias \<open>JobState\<close>, a \<open>Literal\<close> of twelve strings and the declared type of
  \<open>TuningJob.state\<close>: the constructor of the class validates the state against it, so a
  tuning job holds one of these twelve values or \<open>None\<close>.  \<open>JobState_literal\<close> gives the
  string a value stands for, which is what the membership tests below compare.
\<close>

datatype JobState =
  JOB_STATE_UNSPECIFIED | JOB_STATE_QUEUED | JOB_STATE_PENDING | JOB_STATE_RUNNING
  | JOB_STATE_SUCCEEDED | JOB_STATE_FAILED | JOB_STATE_CANCELLING | JOB_STATE_CANCELLED
  | JOB_STATE_PAUSED | JOB_STATE_EXPIRED | JOB_STATE_UPDATING | JOB_STATE_PARTIALLY_SUCCEEDED

fun JobState_literal :: "JobState \<Rightarrow> string" where
  "JobState_literal JOB_STATE_UNSPECIFIED = ''JOB_STATE_UNSPECIFIED''"
| "JobState_literal JOB_STATE_QUEUED = ''JOB_STATE_QUEUED''"
| "JobState_literal JOB_STATE_PENDING = ''JOB_STATE_PENDING''"
| "JobState_literal JOB_STATE_RUNNING = ''JOB_STATE_RUNNING''"
| "JobState_literal JOB_STATE_SUCCEEDED = ''JOB_STATE_SUCCEEDED''"
| "JobState_literal JOB_STATE_FAILED = ''JOB_STATE_FAILED''"
| "JobState_literal JOB_STATE_CANCELLING = ''JOB_STATE_CANCELLING''"
| "JobState_literal JOB_STATE_CANCELLED = ''JOB_STATE_CANCELLED''"
| "JobState_literal JOB_STATE_PAUSED = ''JOB_STATE_PAUSED''"
| "JobState_literal JOB_STATE_EXPIRED = ''JOB_STATE_EXPIRED''"
| "JobState_literal JOB_STATE_UPDATING = ''JOB_STATE_UPDATING''"
| "JobState_literal JOB_STATE_PARTIALLY_SUCCEEDED = ''JOB_STATE_PARTIALLY_SUCCEEDED''"

definition JOB_STATES_SUCCEEDED_VERTEX :: "string list" where
  "JOB_STATES_SUCCEEDED_VERTEX = [''JOB_STATE_SUCCEEDED'']"

definition JOB_STATES_SUCCEEDED_MLDEV :: "string list" where
  "JOB_STATES_SUCCEEDED_MLDEV = [''ACTIVE'']"

definition JOB_STATES_SUCCEEDED :: "string list" where
  "JOB_STATES_SUCCEEDED = JOB_STATES_SUCCEEDED_VERTEX @ JOB_STATES_SUCCEEDED_MLDEV"

definition JOB_STATES_ENDED_VERTEX :: "string list" where
  "JOB_STATES_ENDED_VERTEX =
     [''JOB_STATE_SUCCEEDED'', ''JOB_STATE_FAILED'', ''JOB_STATE_CANCELLED'', ''JOB_STATE_EXPIRED'']"

definition JOB_STATES_ENDED_MLDEV :: "string list" where
  "JOB_STATES_ENDED_MLDEV = [''ACTIVE'', ''FAILED'']"

definition JOB_STATES_ENDED :: "string list" where
  "JOB_STATES_ENDED = JOB_STATES_ENDED_VERTEX @ JOB_STATES_ENDED_MLDEV"

text \<open>
  \<open>class TuningJob\<close>.  The field \<open>state\<close> is declared \<open>Optional[JobState]\<close>.  The class
  has further fields (error status, tuned model, tuning specs, statistics, encryption
  spec); the two properties read \<open>state\<close> only.  There is no field naming a backend.
\<close>

record TuningJob =
  name :: "string option"
  state :: "JobState option"
  create_time :: "datetime option"
  start_time :: "datetime option"
  end_time :: "datetime option"
  update_time :: "datetime option"
  description :: "string option"
  base_model :: "string option"
  pipeline_job :: "string option"
  "experiment" :: "string option"
  labels :: "(string \<times> string) list option"
  tuned_model_display_name :: "string option"

text \<open>\<open>self.state in JOB_STATES_ENDED\<close>: the string of the state is looked up in the list;
  \<open>None\<close> is in neither list.\<close>

definition has_ended :: "TuningJob \<Rightarrow> bool" where
  "has_ended self =
     (case state self of
        None \<Rightarrow> False
      | Some s \<Rightarrow> JobState_literal s \<in> set JOB_STATES_ENDED)"

definition has_succeeded :: "TuningJob \<Rightarrow> bool" where
  "has_succeeded self =
     (case state self of
        None \<Rightarrow> False
      | Some s \<Rightarrow> JobState_literal s \<in> set JOB_STATES_SUCCEEDED)"

text \<open>
  The two backends of the specification: the hosted one is Vertex AI, the direct one is
  the developer API (\<open>MLDEV\<close> in the source).
\<close>

datatype backend = Direct | Hosted

text \<open>
  For comparison with the two properties above, the classification in the words of the
  specification (section 4.5): the predicate consults the literal set of the job's own
  backend.
\<close>

definition ended_set_of :: "backend \<Rightarrow> string list" where
  "ended_set_of b = (case b of Hosted \<Rightarrow> JOB_STATES_ENDED_VERTEX | Direct \<Rightarrow> JOB_STATES_ENDED_MLDEV)"

definition succeeded_set_of :: "backend \<Rightarrow> string list" where
  "succeeded_set_of b =
     (case b of Hosted \<Rightarrow> JOB_STATES_SUCCEEDED_VERTEX | Direct \<Rightarrow> JOB_STATES_SUCCEEDED_MLDEV)"

definition has_ended_per_backend :: "backend \<Rightarrow> TuningJob \<Rightarrow> bool" where
  "has_ended_per_backend b job =
     (case state job of
        None \<Rightarrow> False
      | Some s \<Rightarrow> JobState_literal s \<in> set (ended_set_of b))"

definition has_succeeded_per_backend :: "backend \<Rightarrow> TuningJob \<Rightarrow> bool" where
  "has_succeeded_per_backend b job =
     (case state job of
        None \<Rightarrow> False
      | Some s \<Rightarrow> JobState_literal s \<in> set (succeeded_set_of b))"

subsection \<open>Reference images\<close>

text \<open>\<open>class Image\<close>; its private cache \<open>_loaded_image\<close> is no field of the model.\<close>

record Image =
  gcs_uri :: "string option"
  image_bytes :: "bytes option"

record MaskReferenceConfig =
  mask_mode :: "MaskReferenceMode option"
  segmentation_classes :: "int list option"
  mask_dilation :: "real option"

record ControlReferenceConfig =
  control_type :: "ControlReferenceType option"
  enable_control_image_computation :: "bool option"

record StyleReferenceConfig =
  style_description :: "string option"

record SubjectReferenceConfig =
  subject_type :: "SubjectReferenceType option"
  subject_description :: "string option"

record RawReferenceImage =
  reference_image :: "Image option"
  reference_id :: "int option"
  reference_type :: "string option"

record MaskReferenceImage =
  reference_image :: "Image option"
  reference_id :: "int option"
  reference_type :: "string option"
  config :: "MaskReferenceConfig option"
  mask_image_config :: "MaskReferenceConfig option"

record ControlReferenceImage =
  reference_image :: "Image option"
  reference_id :: "int option"
  reference_type :: "string option"
  config :: "ControlReferenceConfig option"
  control_image_config :: "ControlReferenceConfig option"

record StyleReferenceImage =
  reference_image :: "Image option"
  reference_id :: "int option"
  reference_type :: "string option"
  config :: "StyleReferenceConfig option"
  style_image_config :: "StyleReferenceConfig option"

record SubjectReferenceImage =
  reference_image :: "Image option"
  reference_id :: "int option"
  reference_type :: "string option"
  config :: "SubjectReferenceConfig option"
  subject_image_config :: "SubjectReferenceConfig option"

text \<open>
  The five \<open>__init__\<close> methods.  Each takes \<open>reference_image\<close>, \<open>reference_id\<close> and (but for
  the raw image) \<open>config\<close>; none takes \<open>reference_type\<close>.  Each calls
  \<open>super().__init__\<close> with the two arguments and the constant, which leaves every other
  field at its default \<open>None\<close>, and then assigns \<open>config\<close> to the field of its variant.
\<close>

definition RawReferenceImage_init :: "Image option \<Rightarrow> int option \<Rightarrow> error + RawReferenceImage" where
  "RawReferenceImage_init ri rid =
     Inr \<lparr>RawReferenceImage.reference_image = ri, RawReferenceImage.reference_id = rid,
          RawReferenceImage.reference_type = Some ''REFERENCE_TYPE_RAW''\<rparr>"

definition MaskReferenceImage_init ::
  "Image option \<Rightarrow> int option \<Rightarrow> MaskReferenceConfig option \<Rightarrow> error + MaskReferenceImage" where
  "MaskReferenceImage_init ri rid cfg =
     (let self = \<lparr>MaskReferenceImage.reference_image = ri, MaskReferenceImage.reference_id = rid,
                   MaskReferenceImage.reference_type = Some ''REFERENCE_TYPE_MASK'',
                   MaskReferenceImage.config = None, mask_image_config = None\<rparr>
      in Inr (self\<lparr>mask_image_config := cfg\<rparr>))"

definition ControlReferenceImage_init ::
  "Image option \<Rightarrow> int option \<Rightarrow> ControlReferenceConfig option \<Rightarrow> error + ControlReferenceImage" where
  "ControlReferenceImage_init ri rid cfg =
     (let self = \<lparr>ControlReferenceImage.reference_image = ri, ControlReferenceImage.reference_id = rid,
                   ControlReferenceImage.reference_type = Some ''REFERENCE_TYPE_CONTROL'',
                   ControlReferenceImage.config = None, control_image_config = None\<rparr>
      in Inr (self\<lparr>control_image_config := cfg\<rparr>))"

definition StyleReferenceImage_init ::
  "Image option \<Rightarrow> int option \<Rightarrow> StyleReferenceConfig option \<Rightarrow> error + StyleReferenceImage" where
  "StyleReferenceImage_init ri rid cfg =
     (let self = \<lparr>StyleReferenceImage.reference_image = ri, StyleReferenceImage.reference_id = rid,
                   StyleReferenceImage.reference_type = Some ''REFERENCE_TYPE_STYLE'',
                   StyleReferenceImage.config = None, style_image_config = None\<rparr>
      in Inr (self\<lparr>style_image_config := cfg\<rparr>))"

definition SubjectReferenceImage_init ::
  "Image option \<Rightarrow> int option \<Rightarrow> SubjectReferenceConfig option \<Rightarrow> error + SubjectReferenceImage" where
  "SubjectReferenceImage_init ri rid cfg =
     (let self = \<lparr>SubjectReferenceImage.reference_image = ri, SubjectReferenceImage.reference_id = rid,
                   SubjectReferenceImage.reference_type = Some ''REFERENCE_TYPE_SUBJECT'',
                   SubjectReferenceImage.config = None, subject_image_config = None\<rparr>
      in Inr (self\<lparr>subject_image_config := cfg\<rparr>))"

subsection \<open>Cached-content configuration and its expiry on the wire\<close>

text \<open>
  \<open>class CreateCachedContentConfig\<close>; \<open>system_instruction\<close>, \<open>tools\<close> and \<open>tool_config\<close> do
  not bear on the expiry.
\<close>

record CreateCachedContentConfig =
  http_options :: "(string \<times> json) list option"
  ttl :: "string option"
  expire_time :: "datetime option"
  display_name :: "string option"

text \<open>
  Modelled from the spec: the wire request of a cache creation (sections 3 and 8), as far
  as the configuration determines it: one absolute expiry and no \<open>ttl\<close>.  The request
  transcoder and its types are not among the source files.
\<close>

record CachedContentRequest =
  wire_expire_time :: "datetime option"
  wire_display_name :: "string option"

text \<open>
  Modelled from the spec: the diagnostic that section 4.3 requires when both \<open>ttl\<close> and
  \<open>expire_time\<close> are set; it records the ignored duration and the expiry used.
\<close>

datatype diagnostic = Ttl_ignored string datetime

text \<open>
  Modelled from the spec: a duration string (section 4.3, \<open>86400s\<close> in section 8) is a
  non-empty run of decimal digits followed by \<open>s\<close>.
\<close>

definition is_digit :: "char \<Rightarrow> bool" where
  "is_digit c = (c \<in> set ''0123456789'')"

definition digit_value :: "char \<Rightarrow> nat" where
  "digit_value c = of_char c - 48"

definition decimal :: "string \<Rightarrow> nat" where
  "decimal ds = foldl (\<lambda>n c. 10 * n + digit_value c) 0 ds"

definition parse_duration :: "string \<Rightarrow> nat option" where
  "parse_duration d =
     (if length d \<ge> 2 \<and> last d = CHR ''s'' \<and> list_all is_digit (butlast d)
      then Some (decimal (butlast d)) else None)"

text \<open>
  Modelled from the spec: the request transcoder of cache creation, which is not among
  the source files (only the configuration class and the tests of \<open>caches.create\<close> are).
  Sections 3, 4.3 and 8: \<open>ttl\<close> and \<open>expire_time\<close> are unified into one absolute expiry
  on the wire; a duration becomes the time \<open>now\<close> plus the duration, and the request
  then has no \<open>ttl\<close>; if both are supplied, \<open>expire_time\<close> wins, \<open>ttl\<close> is ignored and a
  diagnostic is emitted.  The specification does not say what a malformed duration does
  when \<open>ttl\<close> alone is given; the model rejects it as a local validation failure.
\<close>

definition CreateCachedContentConfig_to_wire ::
  "datetime \<Rightarrow> CreateCachedContentConfig \<Rightarrow> error + (CachedContentRequest \<times> diagnostic list)" where
  "CreateCachedContentConfig_to_wire now cfg =
     (case expire_time cfg of
        Some e \<Rightarrow>
          Inr (\<lparr>wire_expire_time = Some e, wire_display_name = display_name cfg\<rparr>,
               (case ttl cfg of Some d \<Rightarrow> [Ttl_ignored d e] | None \<Rightarrow> []))
      | None \<Rightarrow>
          (case ttl cfg of
             None \<Rightarrow> Inr (\<lparr>wire_expire_time = None, wire_display_name = display_name cfg\<rparr>, [])
           | Some d \<Rightarrow>
               (case parse_duration d of
                  Some n \<Rightarrow>
                    Inr (\<lparr>wire_expire_time = Some (now + int n),
                          wire_display_name = display_name cfg\<rparr>, [])
                | None \<Rightarrow> Inl (InvalidArgument (''Invalid duration: '' @ d)))))"

subsection \<open>Batch-job names, cancel and delete\<close>

text \<open>
  Modelled from the spec: the client (sections 4.2 and 6) is built for one backend and
  holds the project and location it is configured with.  Neither the client nor the
  \<open>batches\<close> module is among the source files.
\<close>

record client =
  client_backend :: backend
  project :: string
  location :: string

text \<open>Splitting a string at a separator, as \<open>str.split\<close> does.\<close>

fun split_on :: "char \<Rightarrow> string \<Rightarrow> string list" where
  "split_on sep [] = [[]]"
| "split_on sep (c # cs) =
     (if c = sep then [] # split_on sep cs
      else (case split_on sep cs of
              [] \<Rightarrow> [[c]]
            | w # ws \<Rightarrow> (c # w) # ws))"

text \<open>
  Modelled from the spec: the shapes of a batch-job name (sections 4.2, 6 and 8).  A bare
  identifier is a non-empty run of decimal digits (\<open>2803006536245313536\<close> is one,
  \<open>invalid_name\<close> is none).
\<close>

definition is_bare_id :: "string \<Rightarrow> bool" where
  "is_bare_id raw_name = (raw_name \<noteq> [] \<and> list_all is_digit raw_name)"

text \<open>
  Modelled from the spec: the hosted template
  \<open>projects/{project}/locations/{location}/batchPredictionJobs/{id}\<close> of section 6, six
  segments with the three fixed ones in place and the three others not empty.
\<close>

definition is_batch_job_path :: "string \<Rightarrow> bool" where
  "is_batch_job_path raw_name =
     (case split_on CHR ''/'' raw_name of
        [a, p, b, l, c, i] \<Rightarrow>
          a = ''projects'' \<and> p \<noteq> [] \<and> b = ''locations'' \<and> l \<noteq> []
          \<and> c = ''batchPredictionJobs'' \<and> i \<noteq> []
      | _ \<Rightarrow> False)"

text \<open>
  Modelled from the spec: the path resolver for batch jobs (section 4.2 and the
  resolution table of section 8); the \<open>batches\<close> module is not among the source files,
  only the tests of \<open>batches.cancel\<close> and \<open>batches.delete\<close> are.  On the direct backend
  every name is refused, batch jobs being hosted-only.  On the hosted backend a bare
  numeric identifier is expanded with the configured project and location, a
  fully-qualified path is passed through unchanged, and any other name is an
  \<open>InvalidArgument\<close> whose message names it.  The two messages are those the tests expect
  (\<open>only supported in the Vertex AI client\<close>, \<open>Invalid batch job name\<close>).
\<close>

definition resolve_BatchJob :: "client \<Rightarrow> string \<Rightarrow> error + string" where
  "resolve_BatchJob cl raw_name =
     (case client_backend cl of
        Direct \<Rightarrow>
          Inl (UnsupportedOnBackend ''This method is only supported in the Vertex AI client.'')
      | Hosted \<Rightarrow>
          if is_bare_id raw_name then
            Inr (''projects/'' @ project cl @ ''/locations/'' @ location cl
                 @ ''/batchPredictionJobs/'' @ raw_name)
          else if is_batch_job_path raw_name then Inr raw_name
          else Inl (InvalidArgument (''Invalid batch job name: '' @ raw_name @ ''.'')))"

text \<open>
  Modelled from the spec: \<open>cancel\<close> and \<open>delete\<close> of a batch job (sections 4.3, 4.5 and 7).
  The name is resolved first, and a failure there ends the call; only then is the request
  handed to the transport.  The transport is a parameter; the list holds the requests
  sent so far.
\<close>

datatype batch_method = Cancel | Delete

record request =
  request_method :: batch_method
  request_path :: string

definition batches_call ::
  "batch_method \<Rightarrow> (request \<Rightarrow> 'r) \<Rightarrow> client \<Rightarrow> string \<Rightarrow> request list
   \<Rightarrow> (error + 'r) \<times> request list" where
  "batches_call m transport cl raw_name sent =
     (case resolve_BatchJob cl raw_name of
        Inl e \<Rightarrow> (Inl e, sent)
      | Inr path \<Rightarrow>
          (let rq = \<lparr>request_method = m, request_path = path\<rparr>
           in (Inr (transport rq), sent @ [rq])))"

definition batches_cancel ::
  "(request \<Rightarrow> 'r) \<Rightarrow> client \<Rightarrow> string \<Rightarrow> request list \<Rightarrow> (error + 'r) \<times> request list" where
  "batches_cancel = batches_call Cancel"

definition batches_delete ::
  "(request \<Rightarrow> 'r) \<Rightarrow> client \<Rightarrow> string \<Rightarrow> request list \<Rightarrow> (error + 'r) \<times> request list" where
  "batches_delete = batches_call Delete"

subsection \<open>Example values\<close>

text \<open>Concrete parts, responses, jobs and clients at which the theorems below are evaluated.\<close>

definition text_part :: "string \<Rightarrow> Part" where
  "text_part s =
     \<lparr>video_metadata = None, code_execution_result = None, executable_code = None,
      file_data = None, function_call = None, function_response = None,
      inline_data = None, text = Some s\<rparr>"

definition png_blob :: Blob where
  "png_blob = \<lparr>data = Some [0x89, 0x50, 0x4E, 0x47], mime_type = Some ''image/png''\<rparr>"

definition png_part :: Part where
  "png_part =
     \<lparr>video_metadata = None, code_execution_result = None, executable_code = None,
      file_data = None, function_call = None, function_response = None,
      inline_data = Some png_blob, text = None\<rparr>"

definition captioned_png_part :: Part where
  "captioned_png_part =
     \<lparr>video_metadata = None, code_execution_result = None, executable_code = None,
      file_data = None, function_call = None, function_response = None,
      inline_data = Some png_blob, text = Some ''caption''\<rparr>"

definition candidate_of :: "Content option \<Rightarrow> Candidate" where
  "candidate_of ct =
     \<lparr>content = ct, finish_message = None, token_count = None,
      finish_reason = Some ''STOP'', index = Some 0\<rparr>"

definition response_of :: "Candidate list option \<Rightarrow> GenerateContentResponse" where
  "response_of cs = \<lparr>candidates = cs, model_version = None, usage_metadata = None\<rparr>"

definition model_content :: "Part list option \<Rightarrow> Content" where
  "model_content ps = \<lparr>parts = ps, role = Some ''model''\<rparr>"

definition job_in_state :: "JobState \<Rightarrow> TuningJob" where
  "job_in_state s =
     \<lparr>name = Some ''tunedModels/example'', state = Some s, create_time = None,
      start_time = None, end_time = None, update_time = None, description = None,
      base_model = None, pipeline_job = None, experiment = None, labels = None,
      tuned_model_display_name = None\<rparr>"

definition both_expiries_config :: CreateCachedContentConfig where
  "both_expiries_config =
     \<lparr>http_options = None, ttl = Some ''86400s'', expire_time = Some 1734652800,
      display_name = Some ''test cache''\<rparr>"

definition direct_client :: client where
  "direct_client = \<lparr>client_backend = Direct, project = [], location = []\<rparr>"

definition hosted_client :: client where
  "hosted_client =
     \<lparr>client_backend = Hosted, project = ''964831358985'', location = ''us-central1''\<rparr>"

definition null_transport :: "request \<Rightarrow> unit" where
  "null_transport rq = ()"

section \<open>Properties\<close>

subsection \<open>Auxiliary facts about the text accessor\<close>

lemma check_fields_ok:
  "(\<forall>(n, v) \<in> set items. v = None) \<Longrightarrow> check_fields p items = Inr ()"
  by (induction items) auto

lemma check_fields_raises:
  "(\<exists>(n, v) \<in> set items. v \<noteq> None) \<Longrightarrow>
   \<exists>f. check_fields p items = Inl (ValueError f p) \<and> f \<in> fst ` set items"
  by (induction items) force+

lemma has_non_text_items:
  "has_non_text p \<longleftrightarrow> (\<exists>(n, v) \<in> set (Part_dict p [''text'']). v \<noteq> None)"
  unfolding has_non_text_def populated_fields_def Part_dict_def
  by (simp add: filter_empty_conv)

lemma only_text_iff:
  "only_text p \<longleftrightarrow> (Part.text p \<noteq> None \<and> \<not> has_non_text p)"
  unfolding has_non_text_def only_text_def populated_fields_def Part_dict_def
  by (auto simp add: filter_empty_conv)

lemma Part_dict_names: "f \<in> fst ` set (Part_dict p [''text'']) \<Longrightarrow> f \<noteq> ''text''"
  unfolding Part_dict_def by auto

lemma check_fields_part_ok:
  "\<not> has_non_text p \<Longrightarrow> check_fields p (Part_dict p [''text'']) = Inr ()"
  by (rule check_fields_ok) (auto simp add: has_non_text_items)

lemma check_fields_part_raises:
  "has_non_text p \<Longrightarrow>
   \<exists>f. check_fields p (Part_dict p [''text'']) = Inl (ValueError f p) \<and> f \<noteq> ''text''"
  using check_fields_raises[of "Part_dict p [''text'']" p] Part_dict_names[of _ p]
  by (auto simp add: has_non_text_items)

lemma text_loop_all_text:
  "\<forall>p \<in> set ps. \<not> has_non_text p \<Longrightarrow>
   text_loop ps acc b =
     Inr (acc @ concat (List.map_filter Part.text ps), b \<or> (\<exists>p \<in> set ps. Part.text p \<noteq> None))"
proof (induction ps arbitrary: acc b)
  case Nil
  then show ?case by simp
next
  case (Cons p ps)
  then have ok: "check_fields p (Part_dict p [''text'']) = Inr ()"
    by (simp add: check_fields_part_ok)
  from Cons show ?case
    by (cases "Part.text p") (auto simp add: ok)
qed

lemma text_loop_non_text:
  "\<exists>p \<in> set ps. has_non_text p \<Longrightarrow>
   \<exists>f q. text_loop ps acc b = Inl (ValueError f q) \<and> q \<in> set ps \<and> has_non_text q \<and> f \<noteq> ''text''"
proof (induction ps arbitrary: acc b)
  case Nil
  then show ?case by simp
next
  case (Cons p ps)
  show ?case
  proof (cases "has_non_text p")
    case True
    then show ?thesis using check_fields_part_raises[of p] by auto
  next
    case False
    then have ok: "check_fields p (Part_dict p [''text'']) = Inr ()"
      by (simp add: check_fields_part_ok)
    from False Cons.prems have "\<exists>p \<in> set ps. has_non_text p" by auto
    then show ?thesis
      using Cons.IH[of acc b] Cons.IH[of "acc @ the (Part.text p)" True]
      by (cases "Part.text p") (auto simp add: ok)
  qed
qed

lemma text_part_only_text: "only_text (text_part s)"
  by (simp add: only_text_def populated_fields_def Part_dict_def text_part_def)

lemma png_part_has_non_text: "has_non_text png_part"
  by (simp add: has_non_text_def populated_fields_def Part_dict_def png_part_def)

subsection \<open>Constructing a Part\<close>

text \<open>
  C1, as stated, fails: a Part built with both \<open>inline_data\<close> and \<open>text\<close> populated is
  returned, not refused.
\<close>

theorem Part_two_variants_counterexample:
  "Part_init None None None None None None (Some png_blob) (Some ''caption'')
     = Inr captioned_png_part
   \<and> populated_fields captioned_png_part = [''inline_data'', ''text'']"
  by (simp add: Part_init_def captioned_png_part_def populated_fields_def Part_dict_def)

text \<open>
  C1, amended: constructing a Part never raises, however many variant fields are
  populated (none, one or several); the Part holds the fields as supplied.  In particular
  a construction with exactly one populated field never raises, and each of the class
  methods \<open>from_uri\<close>, \<open>from_text\<close>, \<open>from_bytes\<close>, \<open>from_function_call\<close>,
  \<open>from_function_response\<close>, \<open>from_video_metadata\<close>, \<open>from_executable_code\<close> and
  \<open>from_code_execution_result\<close> returns a Part with exactly its own field populated.
\<close>

theorem Part_init_never_raises:
  "(\<exists>p. Part_init vm cer ec fd fc fr idt t = Inr p
        \<and> video_metadata p = vm \<and> code_execution_result p = cer \<and> executable_code p = ec
        \<and> file_data p = fd \<and> function_call p = fc \<and> function_response p = fr
        \<and> inline_data p = idt \<and> Part.text p = t)
   \<and> (\<exists>p. from_uri uri mt = Inr p \<and> populated_fields p = [''file_data''])
   \<and> (\<exists>p. from_text s = Inr p \<and> populated_fields p = [''text''])
   \<and> (\<exists>p. from_bytes bs mt = Inr p \<and> populated_fields p = [''inline_data''])
   \<and> (\<exists>p. from_function_call n a = Inr p \<and> populated_fields p = [''function_call''])
   \<and> (\<exists>p. from_function_response n r = Inr p \<and> populated_fields p = [''function_response''])
   \<and> (\<exists>p. from_video_metadata eo so = Inr p \<and> populated_fields p = [''video_metadata''])
   \<and> (\<exists>p. from_executable_code c l = Inr p \<and> populated_fields p = [''executable_code''])
   \<and> (\<exists>p. from_code_execution_result oc ou = Inr p
         \<and> populated_fields p = [''code_execution_result''])"
  by (simp add: Part_init_def from_uri_def from_text_def from_bytes_def from_function_call_def
      from_function_response_def from_video_metadata_def from_executable_code_def
      from_code_execution_result_def populated_fields_def Part_dict_def)

subsection \<open>The text accessor\<close>

text \<open>
  C2: for a response whose first candidate has a non-empty list of parts, if every part
  has only its text populated the accessor returns the texts concatenated in order; if
  some part has a field other than text populated it raises \<open>ValueError\<close> (the
  invalid-argument exception of Python), naming such a field of such a part.
\<close>

theorem text_concatenates_or_raises:
  assumes "candidates r = Some (c # cs)" and "content c = Some ct"
    and "parts ct = Some ps" and "ps \<noteq> []"
  shows "((\<forall>p \<in> set ps. only_text p) \<longrightarrow>
            snd (GenerateContentResponse_text r)
              = Inr (Some (concat (List.map_filter Part.text ps))))
       \<and> ((\<exists>p \<in> set ps. has_non_text p) \<longrightarrow>
            (\<exists>f q. snd (GenerateContentResponse_text r) = Inl (ValueError f q)
                   \<and> q \<in> set ps \<and> has_non_text q \<and> f \<noteq> ''text''))"
proof (intro conjI impI)
  obtain p ps' where ps: "ps = p # ps'" using assms(4) by (cases ps) auto
  {
    assume all: "\<forall>p \<in> set ps. only_text p"
    then have nt: "\<forall>p \<in> set ps. \<not> has_non_text p" by (simp add: only_text_iff)
    from all ps have "\<exists>p \<in> set ps. Part.text p \<noteq> None" by (auto simp add: only_text_iff)
    then show "snd (GenerateContentResponse_text r)
                 = Inr (Some (concat (List.map_filter Part.text ps)))"
      using text_loop_all_text[OF nt, of "[]" False] assms(1-3) ps
      by (simp add: GenerateContentResponse_text_def)
  }
  {
    assume "\<exists>p \<in> set ps. has_non_text p"
    from text_loop_non_text[OF this, of "[]" False]
    show "\<exists>f q. snd (GenerateContentResponse_text r) = Inl (ValueError f q)
                   \<and> q \<in> set ps \<and> has_non_text q \<and> f \<noteq> ''text''"
      using assms(1-3) ps by (auto simp add: GenerateContentResponse_text_def)
  }
qed

theorem text_concatenates_or_raises_witness:
  "snd (GenerateContentResponse_text
          (response_of (Some [candidate_of (Some (model_content
             (Some [text_part ''Hello, '', text_part ''world''])))])))
     = Inr (Some ''Hello, world'')
   \<and> (\<exists>f q. snd (GenerateContentResponse_text
          (response_of (Some [candidate_of (Some (model_content
             (Some [text_part ''Hello'', png_part])))])))
        = Inl (ValueError f q))"
proof -
  let ?ps1 = "[text_part ''Hello, '', text_part ''world'']"
  let ?ps2 = "[text_part ''Hello'', png_part]"
  let ?c1 = "candidate_of (Some (model_content (Some ?ps1)))"
  let ?c2 = "candidate_of (Some (model_content (Some ?ps2)))"
  have a1: "candidates (response_of (Some [?c1])) = Some (?c1 # [])"
    and a2: "candidates (response_of (Some [?c2])) = Some (?c2 # [])"
    by (simp_all add: response_of_def)
  have b1: "content ?c1 = Some (model_content (Some ?ps1))"
    and b2: "content ?c2 = Some (model_content (Some ?ps2))"
    by (simp_all add: candidate_of_def)
  have c1: "parts (model_content (Some ?ps1)) = Some ?ps1"
    and c2: "parts (model_content (Some ?ps2)) = Some ?ps2"
    by (simp_all add: model_content_def)
  have d1: "?ps1 \<noteq> []" and d2: "?ps2 \<noteq> []" by simp_all
  have all: "\<forall>p \<in> set ?ps1. only_text p" by (simp add: text_part_only_text)
  have some: "\<exists>p \<in> set ?ps2. has_non_text p" by (simp add: png_part_has_non_text)
  from text_concatenates_or_raises[OF a1 b1 c1 d1] all
  have "snd (GenerateContentResponse_text (response_of (Some [?c1])))
          = Inr (Some (concat (List.map_filter Part.text ?ps1)))" by blast
  moreover from text_concatenates_or_raises[OF a2 b2 c2 d2] some
  have "\<exists>f q. snd (GenerateContentResponse_text (response_of (Some [?c2])))
          = Inl (ValueError f q)" by blast
  ultimately show ?thesis by (simp add: text_part_def)
qed

text \<open>
  C10: when the response has no candidates (\<open>None\<close> or an empty list), or its first
  candidate has no content, or that content has no parts (\<open>None\<close> or an empty list), the
  accessor returns \<open>None\<close>; it raises nothing and logs nothing.
\<close>

theorem text_none_when_nothing_to_read:
  assumes "candidates r = None \<or> candidates r = Some []
     \<or> (\<exists>c cs. candidates r = Some (c # cs)
           \<and> (content c = None
              \<or> (\<exists>ct. content c = Some ct \<and> (parts ct = None \<or> parts ct = Some []))))"
  shows "GenerateContentResponse_text r = ([], Inr None)"
  using assms by (auto simp add: GenerateContentResponse_text_def)

theorem text_none_when_nothing_to_read_witness:
  "GenerateContentResponse_text (response_of None) = ([], Inr None)
   \<and> GenerateContentResponse_text (response_of (Some [])) = ([], Inr None)
   \<and> GenerateContentResponse_text (response_of (Some [candidate_of None])) = ([], Inr None)
   \<and> GenerateContentResponse_text
        (response_of (Some [candidate_of (Some (model_content None))])) = ([], Inr None)
   \<and> GenerateContentResponse_text
        (response_of (Some [candidate_of (Some (model_content (Some [])))])) = ([], Inr None)"
proof (intro conjI)
  show "GenerateContentResponse_text (response_of None) = ([], Inr None)"
    by (rule text_none_when_nothing_to_read) (simp add: response_of_def)
  show "GenerateContentResponse_text (response_of (Some [])) = ([], Inr None)"
    by (rule text_none_when_nothing_to_read) (simp add: response_of_def)
  show "GenerateContentResponse_text (response_of (Some [candidate_of None])) = ([], Inr None)"
    by (rule text_none_when_nothing_to_read) (simp add: response_of_def candidate_of_def)
  show "GenerateContentResponse_text
        (response_of (Some [candidate_of (Some (model_content None))])) = ([], Inr None)"
    by (rule text_none_when_nothing_to_read)
       (simp add: response_of_def candidate_of_def model_content_def)
  show "GenerateContentResponse_text
        (response_of (Some [candidate_of (Some (model_content (Some [])))])) = ([], Inr None)"
    by (rule text_none_when_nothing_to_read)
       (simp add: response_of_def candidate_of_def model_content_def)
qed

subsection \<open>Job states\<close>

text \<open>
  C4: the four literal sets are those of the specification: hosted succeeded, direct
  succeeded, hosted ended, direct ended.
\<close>

theorem job_state_literal_sets:
  "set JOB_STATES_SUCCEEDED_VERTEX = {''JOB_STATE_SUCCEEDED''}
   \<and> set JOB_STATES_SUCCEEDED_MLDEV = {''ACTIVE''}
   \<and> set JOB_STATES_ENDED_VERTEX
       = {''JOB_STATE_SUCCEEDED'', ''JOB_STATE_FAILED'', ''JOB_STATE_CANCELLED'',
          ''JOB_STATE_EXPIRED''}
   \<and> set JOB_STATES_ENDED_MLDEV = {''ACTIVE'', ''FAILED''}"
  by (simp add: JOB_STATES_SUCCEEDED_VERTEX_def JOB_STATES_SUCCEEDED_MLDEV_def
      JOB_STATES_ENDED_VERTEX_def JOB_STATES_ENDED_MLDEV_def)

lemma JobState_literal_not_direct:
  "JobState_literal s \<noteq> ''ACTIVE''" "JobState_literal s \<noteq> ''FAILED''"
  by (cases s; simp)+

text \<open>
  C3, as stated, fails: the predicates do not consult the set of the job's backend.  A job
  in state \<open>JOB_STATE_SUCCEEDED\<close> reports ended and succeeded whatever backend it came
  from, though the direct sets hold neither literal.
\<close>

theorem has_ended_per_backend_counterexample:
  "has_ended (job_in_state JOB_STATE_SUCCEEDED)
   \<and> has_succeeded (job_in_state JOB_STATE_SUCCEEDED)
   \<and> \<not> has_ended_per_backend Direct (job_in_state JOB_STATE_SUCCEEDED)
   \<and> \<not> has_succeeded_per_backend Direct (job_in_state JOB_STATE_SUCCEEDED)"
  by (simp add: has_ended_def has_succeeded_def has_ended_per_backend_def
      has_succeeded_per_backend_def ended_set_of_def succeeded_set_of_def job_in_state_def
      JOB_STATES_ENDED_def JOB_STATES_SUCCEEDED_def
      JOB_STATES_SUCCEEDED_VERTEX_def JOB_STATES_SUCCEEDED_MLDEV_def
      JOB_STATES_ENDED_VERTEX_def JOB_STATES_ENDED_MLDEV_def)

text \<open>
  C3, amended: \<open>has_ended\<close> and \<open>has_succeeded\<close> test the state against one merged
  vocabulary, the hosted literals together with the direct ones, whatever backend the job
  came from: a job has ended exactly when its state is in the hosted or in the direct
  ended set, and has succeeded exactly when its state is in the hosted or in the direct
  succeeded set.  So a job in state \<open>JOB_STATE_SUCCEEDED\<close> reports both true and a job in
  state \<open>JOB_STATE_RUNNING\<close> reports \<open>has_ended\<close> false.  The direct literals \<open>ACTIVE\<close>
  and \<open>FAILED\<close> are no values of \<open>JobState\<close>, so on a tuning job the direct sets never
  match.
\<close>

theorem has_ended_has_succeeded_merged:
  "has_ended job = (has_ended_per_backend Hosted job \<or> has_ended_per_backend Direct job)
   \<and> has_succeeded job
       = (has_succeeded_per_backend Hosted job \<or> has_succeeded_per_backend Direct job)
   \<and> has_ended (job_in_state JOB_STATE_SUCCEEDED)
   \<and> has_succeeded (job_in_state JOB_STATE_SUCCEEDED)
   \<and> has_ended (job_in_state JOB_STATE_RUNNING) = False
   \<and> has_ended_per_backend Direct job = False
   \<and> has_succeeded_per_backend Direct job = False"
proof -
  have general:
    "has_ended job = (has_ended_per_backend Hosted job \<or> has_ended_per_backend Direct job)"
    "has_succeeded job
       = (has_succeeded_per_backend Hosted job \<or> has_succeeded_per_backend Direct job)"
    by (cases "state job";
        simp add: has_ended_def has_succeeded_def has_ended_per_backend_def
          has_succeeded_per_backend_def ended_set_of_def succeeded_set_of_def
          JOB_STATES_ENDED_def JOB_STATES_SUCCEEDED_def)+
  have examples:
    "has_ended (job_in_state JOB_STATE_SUCCEEDED)"
    "has_succeeded (job_in_state JOB_STATE_SUCCEEDED)"
    "has_ended (job_in_state JOB_STATE_RUNNING) = False"
    by (simp_all add: has_ended_def has_succeeded_def job_in_state_def
        JOB_STATES_ENDED_def JOB_STATES_SUCCEEDED_def
        JOB_STATES_SUCCEEDED_VERTEX_def JOB_STATES_SUCCEEDED_MLDEV_def
        JOB_STATES_ENDED_VERTEX_def JOB_STATES_ENDED_MLDEV_def)
  have direct:
    "has_ended_per_backend Direct job = False"
    "has_succeeded_per_backend Direct job = False"
    by (cases "state job";
        simp add: has_ended_per_backend_def has_succeeded_per_backend_def ended_set_of_def
          succeeded_set_of_def JOB_STATES_ENDED_MLDEV_def JOB_STATES_SUCCEEDED_MLDEV_def
          JobState_literal_not_direct)+
  from general examples direct show ?thesis by blast
qed

text \<open>
  C9: every literal of the succeeded list is in the ended list, so a tuning job that has
  succeeded has ended.
\<close>

theorem has_succeeded_implies_has_ended:
  "set JOB_STATES_SUCCEEDED \<subseteq> set JOB_STATES_ENDED
   \<and> (has_succeeded job \<longrightarrow> has_ended job)"
proof -
  have sub: "set JOB_STATES_SUCCEEDED \<subseteq> set JOB_STATES_ENDED"
    by (simp add: JOB_STATES_ENDED_def JOB_STATES_SUCCEEDED_def
        JOB_STATES_SUCCEEDED_VERTEX_def JOB_STATES_SUCCEEDED_MLDEV_def
        JOB_STATES_ENDED_VERTEX_def JOB_STATES_ENDED_MLDEV_def)
  then have "has_succeeded job \<longrightarrow> has_ended job"
    by (cases "state job") (auto simp add: has_ended_def has_succeeded_def)
  with sub show ?thesis by simp
qed

theorem has_succeeded_implies_has_ended_witness:
  "has_succeeded (job_in_state JOB_STATE_SUCCEEDED)
   \<and> has_ended (job_in_state JOB_STATE_SUCCEEDED)"
proof -
  have s: "has_succeeded (job_in_state JOB_STATE_SUCCEEDED)"
    by (simp add: has_succeeded_def job_in_state_def JOB_STATES_SUCCEEDED_def
        JOB_STATES_SUCCEEDED_VERTEX_def JOB_STATES_SUCCEEDED_MLDEV_def)
  with has_succeeded_implies_has_ended[of "job_in_state JOB_STATE_SUCCEEDED"]
  show ?thesis by blast
qed

subsection \<open>Reference images\<close>

text \<open>
  C8: each of the five constructors returns an image whose \<open>reference_type\<close> is the
  constant of its variant, for every choice of the arguments (of which \<open>reference_type\<close>
  is none), and whose variant-specific field holds the supplied configuration; the
  field \<open>config\<close> itself stays unset.
\<close>

theorem reference_image_constructors:
  "(\<exists>img. RawReferenceImage_init ri rid = Inr img
       \<and> RawReferenceImage.reference_type img = Some ''REFERENCE_TYPE_RAW''
       \<and> RawReferenceImage.reference_image img = ri
       \<and> RawReferenceImage.reference_id img = rid)
   \<and> (\<exists>img. MaskReferenceImage_init ri rid mcfg = Inr img
       \<and> MaskReferenceImage.reference_type img = Some ''REFERENCE_TYPE_MASK''
       \<and> MaskReferenceImage.reference_image img = ri
       \<and> MaskReferenceImage.reference_id img = rid
       \<and> mask_image_config img = mcfg \<and> MaskReferenceImage.config img = None)
   \<and> (\<exists>img. ControlReferenceImage_init ri rid ccfg = Inr img
       \<and> ControlReferenceImage.reference_type img = Some ''REFERENCE_TYPE_CONTROL''
       \<and> ControlReferenceImage.reference_image img = ri
       \<and> ControlReferenceImage.reference_id img = rid
       \<and> control_image_config img = ccfg \<and> ControlReferenceImage.config img = None)
   \<and> (\<exists>img. StyleReferenceImage_init ri rid scfg = Inr img
       \<and> StyleReferenceImage.reference_type img = Some ''REFERENCE_TYPE_STYLE''
       \<and> StyleReferenceImage.reference_image img = ri
       \<and> StyleReferenceImage.reference_id img = rid
       \<and> style_image_config img = scfg \<and> StyleReferenceImage.config img = None)
   \<and> (\<exists>img. SubjectReferenceImage_init ri rid jcfg = Inr img
       \<and> SubjectReferenceImage.reference_type img = Some ''REFERENCE_TYPE_SUBJECT''
       \<and> SubjectReferenceImage.reference_image img = ri
       \<and> SubjectReferenceImage.reference_id img = rid
       \<and> subject_image_config img = jcfg \<and> SubjectReferenceImage.config img = None)"
  by (simp add: RawReferenceImage_init_def MaskReferenceImage_init_def
      ControlReferenceImage_init_def StyleReferenceImage_init_def
      SubjectReferenceImage_init_def)

subsection \<open>Expiry of a cached content\<close>

text \<open>
  C5: when the configuration supplies both \<open>ttl\<close> and \<open>expire_time\<close>, the transcoding
  does not raise, the wire request carries the value of \<open>expire_time\<close> whatever the
  duration and the current time are, and one diagnostic is recorded.
\<close>

theorem expire_time_wins_over_ttl:
  assumes "ttl cfg = Some d" and "expire_time cfg = Some e"
  shows "CreateCachedContentConfig_to_wire now cfg
           = Inr (\<lparr>wire_expire_time = Some e, wire_display_name = display_name cfg\<rparr>,
                  [Ttl_ignored d e])"
  using assms by (simp add: CreateCachedContentConfig_to_wire_def)

theorem expire_time_wins_over_ttl_witness:
  "CreateCachedContentConfig_to_wire 1700000000 both_expiries_config
     = Inr (\<lparr>wire_expire_time = Some 1734652800, wire_display_name = Some ''test cache''\<rparr>,
            [Ttl_ignored ''86400s'' 1734652800])"
proof -
  have t: "ttl both_expiries_config = Some ''86400s''"
    and e: "expire_time both_expiries_config = Some 1734652800"
    by (simp_all add: both_expiries_config_def)
  from expire_time_wins_over_ttl[OF t e, of 1700000000]
  show ?thesis by (simp add: both_expiries_config_def)
qed

subsection \<open>Batch jobs\<close>

text \<open>
  C6: on the direct backend, cancel and delete of a batch job raise
  \<open>UnsupportedOnBackend\<close> for every name, and nothing is sent.
\<close>

theorem batches_direct_unsupported:
  assumes "client_backend cl = Direct"
  shows "batches_cancel transport cl raw_name sent
           = (Inl (UnsupportedOnBackend
                ''This method is only supported in the Vertex AI client.''), sent)
       \<and> batches_delete transport cl raw_name sent
           = (Inl (UnsupportedOnBackend
                ''This method is only supported in the Vertex AI client.''), sent)"
  using assms
  by (simp add: batches_cancel_def batches_delete_def batches_call_def resolve_BatchJob_def)

theorem batches_direct_unsupported_witness:
  "fst (batches_cancel null_transport direct_client ''2803006536245313536'' [])
     = Inl (UnsupportedOnBackend ''This method is only supported in the Vertex AI client.'')
   \<and> fst (batches_delete null_transport direct_client
        ''projects/964831358985/locations/us-central1/batchPredictionJobs/7085929781874655232'' [])
     = Inl (UnsupportedOnBackend ''This method is only supported in the Vertex AI client.'')
   \<and> fst (batches_cancel null_transport direct_client ''invalid_name'' [])
     = Inl (UnsupportedOnBackend ''This method is only supported in the Vertex AI client.'')"
proof -
  have d: "client_backend direct_client = Direct" by (simp add: direct_client_def)
  from batches_direct_unsupported[OF d, of null_transport "''2803006536245313536''" "[]"]
    batches_direct_unsupported[OF d, of null_transport
      "''projects/964831358985/locations/us-central1/batchPredictionJobs/7085929781874655232''" "[]"]
    batches_direct_unsupported[OF d, of null_transport "''invalid_name''" "[]"]
  show ?thesis by simp
qed

text \<open>
  C7: on the hosted backend the name \<open>invalid_name\<close> is neither a bare numeric
  identifier nor a batch-job path; resolving it raises \<open>InvalidArgument\<close> with a message
  that names it, and cancel and delete raise the same error with no request sent.
\<close>

theorem batches_invalid_name_hosted:
  assumes "client_backend cl = Hosted"
  shows "resolve_BatchJob cl ''invalid_name''
           = Inl (InvalidArgument (''Invalid batch job name: '' @ ''invalid_name'' @ ''.''))
       \<and> batches_cancel transport cl ''invalid_name'' sent
           = (Inl (InvalidArgument (''Invalid batch job name: '' @ ''invalid_name'' @ ''.'')), sent)
       \<and> batches_delete transport cl ''invalid_name'' sent
           = (Inl (InvalidArgument (''Invalid batch job name: '' @ ''invalid_name'' @ ''.'')), sent)"
proof -
  have "\<not> is_bare_id ''invalid_name''" by (simp add: is_bare_id_def is_digit_def)
  moreover have "\<not> is_batch_job_path ''invalid_name''" by (simp add: is_batch_job_path_def)
  ultimately have
    "resolve_BatchJob cl ''invalid_name''
       = Inl (InvalidArgument (''Invalid batch job name: '' @ ''invalid_name'' @ ''.''))"
    using assms by (simp add: resolve_BatchJob_def)
  then show ?thesis
    by (simp add: batches_cancel_def batches_delete_def batches_call_def)
qed

theorem batches_invalid_name_hosted_witness:
  "batches_cancel null_transport hosted_client ''invalid_name'' []
     = (Inl (InvalidArgument ''Invalid batch job name: invalid_name.''), [])
   \<and> batches_delete null_transport hosted_client ''invalid_name'' []
     = (Inl (InvalidArgument ''Invalid batch job name: invalid_name.''), [])"
proof -
  have h: "client_backend hosted_client = Hosted" by (simp add: hosted_client_def)
  from batches_invalid_name_hosted[OF h, of null_transport "[]"]
  show ?thesis by simp
qed

end
